theory Spec2Isabelle
  imports Main "HOL-Library.Char_ord" "HOL-Library.List_Lexorder"
begin

section \<open>Values thrown by the coordinator\<close>

text \<open>
  The TypeScript sources throw three kinds of values: an \<open>HTTPError\<close> built from a status
  and an error code, the \<open>TypeError\<close> of the runtime when a property of \<open>undefined\<close> is
  read, and the literal \<open>false\<close> with which \<open>waitUntilTopTask\<close> rejects its promise.
\<close>

datatype error = HTTPError nat string | TypeError | RejectedFalse

section \<open>The admission queue (TasksJobQueue.ctrl.ts)\<close>

text \<open>
  Modelled from the spec: the entity \<open>TasksJobQueue\<close> is imported from
  \<open>../entity/TasksJobQueue\<close>, which is not part of the sources at hand. The spec's Ticket is
  \<open>{globalId, producerGlobalId, createdAt}\<close>; the controller reads and writes the columns
  \<open>global_id\<close>, \<open>agent_global_id\<close>, \<open>created_at\<close> and sorts by the primary key
  (\<open>id\<close> in the relational branch, \<open>_id\<close> in the Mongo branch), here \<open>id_pk\<close>.
  \<open>created_at\<close> is a time in milliseconds.
\<close>

record TasksJobQueue =
  id_pk :: nat
  global_id :: string
  agent_global_id :: string
  created_at :: int

text \<open>
  The repository behind \<open>getRepository(TasksJobQueue)\<close>: the rows of the table, the next
  primary key the store will hand out, and whether the store answers at all. Every controller
  function wraps its repository call in \<open>try\<close>/\<open>catch\<close>; a call on a store that does not
  answer is the \<open>catch\<close> branch.
\<close>

record repository =
  rows :: "TasksJobQueue list"
  next_id :: nat
  online :: bool

text \<open>
  The values read with \<open>getConfig\<close> and from \<open>CONFIG\<close> (\<open>../config\<close> and
  \<open>../../util/constants\<close> are not part of the sources at hand) are parameters.
\<close>

record config =
  TASK_JOB_TIMEOUT :: int
  MAX_FAIL_NUMBER_FOR_INTELLIGENCE :: int
  REQUESTED_WITH_ENGINE_UI :: string
  INTELLIGENCE_STATE_finished :: string
  INTELLIGENCE_STATE_failed :: string
  PRODUCER_STATE_active :: string

text \<open>
  \<open>addATaskJob\<close>: \<open>repo.insert({global_id, agent_global_id})\<close>. The store assigns the
  primary key and the creation time \<open>now\<close>.
\<close>

definition addATaskJob :: "string \<Rightarrow> string \<Rightarrow> int \<Rightarrow> repository \<Rightarrow> error + repository" where
  "addATaskJob globalId agentGlobalId now repo =
     (if online repo
      then Inr (repo\<lparr>rows := rows repo @
                   [\<lparr>id_pk = next_id repo, global_id = globalId,
                     agent_global_id = agentGlobalId, created_at = now\<rparr>],
                 next_id := Suc (next_id repo)\<rparr>)
      else Inl (HTTPError 500 ''00005000001''))"

text \<open>
  The sort order of \<open>getTopTaskJob\<close>: \<open>created_at\<close> ascending, then the primary key
  ascending (\<open>orderBy({created_at: "ASC", id: "ASC"})\<close>, and
  \<open>$orderby: {created_at: 1, _id: 1}\<close> in the Mongo branch).
\<close>

definition orderBy :: "TasksJobQueue \<Rightarrow> TasksJobQueue \<Rightarrow> bool" where
  "orderBy a b =
     (created_at a < created_at b \<or> (created_at a = created_at b \<and> id_pk a < id_pk b))"

text \<open>\<open>getOne\<close>/\<open>findOne\<close>: the first row in that order, or nothing on an empty table.\<close>

fun getOne :: "TasksJobQueue list \<Rightarrow> TasksJobQueue option" where
  "getOne [] = None"
| "getOne (t # ts) =
     (case getOne ts of
        None \<Rightarrow> Some t
      | Some u \<Rightarrow> if orderBy u t then Some u else Some t)"

definition getTopTaskJob :: "repository \<Rightarrow> error + TasksJobQueue option" where
  "getTopTaskJob repo =
     (if online repo then Inr (getOne (rows repo))
      else Inl (HTTPError 500 ''00005000001''))"


text \<open>\<open>removeTaskJob\<close>: \<open>repo.delete({global_id: globalId})\<close>.\<close>

definition removeTaskJob :: "string \<Rightarrow> repository \<Rightarrow> error + repository" where
  "removeTaskJob globalId repo =
     (if online repo
      then Inr (repo\<lparr>rows := filter (\<lambda>t. global_id t \<noteq> globalId) (rows repo)\<rparr>)
      else Inl (HTTPError 500 ''00005000001''))"

text \<open>
  The order the spec describes, for comparison with \<open>orderBy\<close>: \<open>createdAt\<close> ascending
  with \<open>globalId\<close> ascending as tie-break.
\<close>

definition spec_createdAt_globalId_order :: "TasksJobQueue \<Rightarrow> TasksJobQueue \<Rightarrow> bool" where
  "spec_createdAt_globalId_order a b =
     (created_at a < created_at b \<or> (created_at a = created_at b \<and> global_id a < global_id b))"

section \<open>Waiting for the head of the queue (waitUntilTopTask)\<close>

text \<open>
  \<open>waitUntilTopTask\<close> returns a promise and polls with \<open>setInterval(..., 100)\<close>. Between
  two polls the caller sleeps; meanwhile other request handlers and the sweep change the table,
  and the store may stop or start answering. The environment gives, for the poll number
  \<open>k\<close>, what happened to the repository since the previous poll and by how many
  milliseconds the timer fired late; the timer never fires early.
\<close>

record environment =
  interference :: "nat \<Rightarrow> repository \<Rightarrow> repository"
  lag :: "nat \<Rightarrow> nat"

text \<open>\<open>resolve(true)\<close> and \<open>reject(false)\<close>.\<close>

datatype settled = Resolved | Rejected

text \<open>
  One run of the interval callback and, when it neither resolves nor rejects, the next one.
  When \<open>getTopTaskJob\<close> throws, the \<open>async\<close> callback ends with the exception:
  \<open>clearInterval\<close>, \<open>resolve\<close> and \<open>reject\<close> are not reached and the interval fires again.
  A promise that is never settled is the value \<open>None\<close>. The result carries the number of
  polls made, the clock at the last poll and the repository as the last poll saw it.
\<close>

partial_function (option) waitHandler ::
  "config \<Rightarrow> environment \<Rightarrow> string \<Rightarrow> int \<Rightarrow> nat \<Rightarrow> int \<Rightarrow> repository
     \<Rightarrow> (settled \<times> nat \<times> int \<times> repository) option"
where
  "waitHandler cfg env globalId startTime k clock repo =
     (let clock' = clock + 100 + int (lag env k);
          repo' = interference env k repo
      in case getTopTaskJob repo' of
           Inl err \<Rightarrow> waitHandler cfg env globalId startTime (Suc k) clock' repo'
         | Inr job \<Rightarrow>
             (case job of
                None \<Rightarrow> Some (Rejected, Suc k, clock', repo')
              | Some j \<Rightarrow>
                  if global_id j = [] then Some (Rejected, Suc k, clock', repo')
                  else if global_id j = globalId then Some (Resolved, Suc k, clock', repo')
                  else if clock' - startTime > TASK_JOB_TIMEOUT cfg
                  then Some (Rejected, Suc k, clock', repo')
                  else waitHandler cfg env globalId startTime (Suc k) clock' repo'))"

definition waitUntilTopTask ::
  "config \<Rightarrow> environment \<Rightarrow> string \<Rightarrow> int \<Rightarrow> repository
     \<Rightarrow> (settled \<times> nat \<times> int \<times> repository) option"
where
  "waitUntilTopTask cfg env globalId now repo =
     (let startTime = now in waitHandler cfg env globalId startTime 0 startTime repo)"

section \<open>lodash on optional strings\<close>

text \<open>
  A value that may be \<open>undefined\<close> is an option. \<open>_.trim\<close> and \<open>_.toUpper\<close> turn
  \<open>undefined\<close> into the empty string; the characters are bytes, and the letters and the
  white space are those of ASCII.
\<close>

definition truthy :: "string option \<Rightarrow> bool" where
  "truthy s = (s \<noteq> None \<and> s \<noteq> Some [])"

definition isSpace :: "char \<Rightarrow> bool" where
  "isSpace c = (c \<in> set [CHR '' '', CHR 0x09, CHR 0x0A, CHR 0x0B, CHR 0x0C, CHR 0x0D])"

definition trim :: "string option \<Rightarrow> string" where
  "trim s =
     (case s of
        None \<Rightarrow> []
      | Some v \<Rightarrow> rev (dropWhile isSpace (rev (dropWhile isSpace v))))"

definition upperChar :: "char \<Rightarrow> char" where
  "upperChar c =
     (if CHR ''a'' \<le> c \<and> c \<le> CHR ''z'' then char_of (of_char c - (32::nat)) else c)"

definition toUpper :: "string option \<Rightarrow> string" where
  "toUpper s = (case s of None \<Rightarrow> [] | Some v \<Rightarrow> map upperChar v)"

section \<open>Producers (getProducer)\<close>

record producer_system =
  serialId :: "string option"
  p_securityKey :: "string option"
  p_state :: "string option"

record producer =
  p_type :: "string option"
  p_system :: "producer_system option"

text \<open>The object \<open>updateProducer\<close> that \<open>getProducer\<close> writes back.\<close>

record producer_update =
  u_lastPing :: "int option"
  u_serialId :: "string option"

text \<open>
  The calls that leave the sources at hand: \<open>getProducerByGlobalIdDB\<close> and
  \<open>updateProducerDB\<close> of \<open>Producer.ctrl\<close>, \<open>utils.omit\<close>, and
  \<open>getIntelligencesForProducerDB\<close> of \<open>IntelligenceAndHistory.ctrl\<close>. They are parameters
  acting on a state \<open>'w\<close> of their own; each may throw.
\<close>

record ('w, 'i) collaborators =
  getProducerByGlobalIdDB :: "string \<Rightarrow> string option \<Rightarrow> 'w \<Rightarrow> error + producer option"
  updateProducerDB :: "string \<Rightarrow> string option \<Rightarrow> producer_update \<Rightarrow> 'w \<Rightarrow> error + 'w"
  omit :: "producer \<Rightarrow> producer"
  getIntelligencesForProducerDB :: "producer \<Rightarrow> string option \<Rightarrow> 'w \<Rightarrow> error + ('i list \<times> 'w)"

text \<open>
  \<open>getProducer(gid, securityKey, serialId, jobId, requestedWith, type)\<close>; \<open>now\<close> is the
  reading of \<open>Date.now()\<close> for \<open>lastPing\<close>.
\<close>

definition getProducer ::
  "config \<Rightarrow> ('w, 'i) collaborators \<Rightarrow> string \<Rightarrow> string option \<Rightarrow> string option
     \<Rightarrow> string option \<Rightarrow> string option \<Rightarrow> string option \<Rightarrow> int \<Rightarrow> 'w
     \<Rightarrow> (error + producer) \<times> 'w"
where
  "getProducer cfg col gid securityKey serialIdArg jobId requestedWith typeArg now w =
     (if gid = [] then (Inl (HTTPError 400 ''00144000001''), w)
      else
        case getProducerByGlobalIdDB col gid securityKey w of
          Inl err \<Rightarrow> (Inl err, w)
        | Inr None \<Rightarrow> (Inl (HTTPError 404 ''00144040001''), w)
        | Inr (Some producer) \<Rightarrow>
            if truthy typeArg \<and> toUpper (p_type producer) \<noteq> toUpper typeArg
            then (Inl (HTTPError 400 ''00144000004''), w)
            else if (case p_system producer of
                       None \<Rightarrow> False
                     | Some sys \<Rightarrow> truthy (serialId sys) \<and> truthy serialIdArg
                                    \<and> serialId sys \<noteq> serialIdArg)
            then (Inl (HTTPError 403 ''00144030001''), w)
            else
              let lastPing = (if requestedWith \<noteq> Some (REQUESTED_WITH_ENGINE_UI cfg)
                              then Some now else None)
              in if truthy typeArg \<and> truthy serialIdArg \<and> p_system producer = None
                 then (Inl TypeError, w)
                 else
                   let updateProducer =
                         \<lparr>u_lastPing = lastPing,
                          u_serialId =
                            (if truthy typeArg \<and> truthy serialIdArg
                                \<and> \<not> truthy (serialId (the (p_system producer)))
                             then serialIdArg else None)\<rparr>
                   in (case updateProducerDB col gid securityKey updateProducer w of
                         Inl err \<Rightarrow> (Inl err, w)
                       | Inr w' \<Rightarrow> (Inr producer, w')))"

section \<open>Requesting work (getIntelligences)\<close>

text \<open>
  The \<open>try\<close> block. \<open>taskJobGlobalId\<close> is what \<open>utils.generateGlobalId("taskjob")\<close>
  returned. The result is the value returned or thrown by the block together with the state
  at that point; a wait that never settles gives \<open>None\<close>.
\<close>

definition getIntelligences_try ::
  "config \<Rightarrow> environment \<Rightarrow> ('w, 'i) collaborators \<Rightarrow> string \<Rightarrow> string \<Rightarrow> string option
     \<Rightarrow> int \<Rightarrow> repository \<times> 'w \<Rightarrow> ((error + 'i list) \<times> repository \<times> 'w) option"
where
  "getIntelligences_try cfg env col taskJobGlobalId producerGid securityKey now st =
     (case st of (repo, w) \<Rightarrow>
      (case addATaskJob taskJobGlobalId producerGid now repo of
        Inl err \<Rightarrow> Some (Inl err, repo, w)
      | Inr repo1 \<Rightarrow>
          (case waitUntilTopTask cfg env taskJobGlobalId now repo1 of
             None \<Rightarrow> None
           | Some (Rejected, polls, clock, repo2) \<Rightarrow> Some (Inl RejectedFalse, repo2, w)
           | Some (Resolved, polls, clock, repo2) \<Rightarrow>
               (let securityKey =
                      (if securityKey = Some ''undefined'' \<or> securityKey = Some ''null''
                       then None else securityKey)
                in (case getProducer cfg col producerGid securityKey None None None None clock w of
                     (Inl err, w1) \<Rightarrow> Some (Inl err, repo2, w1)
                   | (Inr producerConfig, w1) \<Rightarrow>
                       (case p_system producerConfig of
                          None \<Rightarrow> Some (Inl TypeError, repo2, w1)
                        | Some sys \<Rightarrow>
                            (let producerSecurityKey =
                                  (if p_securityKey sys = Some ''undefined''
                                      \<or> p_securityKey sys = Some ''null''
                                   then None else p_securityKey sys)
                            in if trim producerSecurityKey \<noteq> trim securityKey
                               then Some (Inl (HTTPError 400 ''00054000001''), repo2, w1)
                               else
                                 (let producerConfig = omit col producerConfig
                                 in (case p_system producerConfig of
                                      None \<Rightarrow> Some (Inl TypeError, repo2, w1)
                                    | Some sys' \<Rightarrow>
                                        if toUpper (p_state sys')
                                             \<noteq> toUpper (Some (PRODUCER_STATE_active cfg))
                                        then Some (Inl (HTTPError 400 ''00054000002''), repo2, w1)
                                        else
                                          (case getIntelligencesForProducerDB col producerConfig
                                                 securityKey w1 of
                                            Inl err \<Rightarrow> Some (Inl err, repo2, w1)
                                          | Inr (intelligences, w2) \<Rightarrow>
                                              (case removeTaskJob taskJobGlobalId repo2 of
                                                 Inl err \<Rightarrow> Some (Inl err, repo2, w2)
                                               | Inr repo3 \<Rightarrow>
                                                   Some (Inr intelligences, repo3, w2))))))))))))"

text \<open>
  The whole function: what the \<open>try\<close> block returns is returned; what it throws reaches the
  \<open>catch\<close> block, which calls \<open>removeTaskJob\<close> and throws the error again (or the error
  of \<open>removeTaskJob\<close>, when that call throws).
\<close>

definition getIntelligences ::
  "config \<Rightarrow> environment \<Rightarrow> ('w, 'i) collaborators \<Rightarrow> string \<Rightarrow> string \<Rightarrow> string option
     \<Rightarrow> int \<Rightarrow> repository \<times> 'w \<Rightarrow> ((error + 'i list) \<times> repository \<times> 'w) option"
where
  "getIntelligences cfg env col taskJobGlobalId producerGid securityKey now st =
     (case getIntelligences_try cfg env col taskJobGlobalId producerGid securityKey now st of
        None \<Rightarrow> None
      | Some (Inr intelligences, repo', w') \<Rightarrow> Some (Inr intelligences, repo', w')
      | Some (Inl err, repo', w') \<Rightarrow>
          (case removeTaskJob taskJobGlobalId repo' of
             Inl err' \<Rightarrow> Some (Inl err', repo', w')
           | Inr repo'' \<Rightarrow> Some (Inl err, repo'', w')))"

section \<open>Reporting results (updateIntelligences)\<close>

text \<open>
  \<open>system.failuresNumber\<close> is a JavaScript number that may be missing:
  \<open>addIntelligences\<close> deletes the field from every new intelligence. \<open>undefined + 1\<close>
  is \<open>NaN\<close>.
\<close>

datatype number = Undefined | NaN | Num int

text \<open>\<open>!n\<close> is true for \<open>undefined\<close>, \<open>NaN\<close> and \<open>0\<close>.\<close>

fun falsy :: "number \<Rightarrow> bool" where
  "falsy (Num n) = (n = 0)"
| "falsy _ = True"

text \<open>\<open>(n || 0)\<close>.\<close>

fun orZero :: "number \<Rightarrow> int" where
  "orZero (Num n) = n"
| "orZero _ = 0"

text \<open>\<open>n += 1\<close>.\<close>

fun plusOne :: "number \<Rightarrow> number" where
  "plusOne (Num n) = Num (n + 1)"
| "plusOne _ = NaN"


text \<open>\<open>system.producer\<close>: who worked on the intelligence, and when.\<close>

record producer_attempt =
  producer_globalId :: "string option"
  producer_type :: "string option"
  producer_startedAt :: "int option"
  producer_endedAt :: "int option"

record intelligence_system =
  state :: "string option"
  failuresNumber :: number
  failuresReason :: "string option"
  producer :: "producer_attempt option"
  modified :: "int option"
  endedAt :: "int option"
  securityKey :: "string option"

text \<open>
  An intelligence, as stored and as reported by a producer. \<open>primary_key\<close> stands for the
  fields \<open>id\<close> and \<open>_id\<close>. The fields that \<open>updateIntelligences\<close> neither reads nor
  writes (retailer, url, priority, ...) are left out.
\<close>

record intelligence =
  primary_key :: "nat option"
  globalId :: string
  system :: "intelligence_system option"

text \<open>The two outcomes of the loop body: an entry of \<open>failedIntelligences\<close>, or an entry
  of \<open>intelligenceHistory\<close> (whose \<open>globalId\<close> is also pushed to \<open>gids\<close>).\<close>

datatype classified = Retry intelligence | Terminal intelligence

text \<open>\<open>_.get(intelligence, "system.state")\<close> and its siblings, on the entry of
  \<open>contentMap\<close> that may be missing.\<close>

definition get_system_state :: "intelligence option \<Rightarrow> string option" where
  "get_system_state intelligence =
     (case intelligence of
        None \<Rightarrow> None
      | Some i \<Rightarrow> (case system i of None \<Rightarrow> None | Some s \<Rightarrow> state s))"

definition get_system_failuresReason :: "intelligence option \<Rightarrow> string option" where
  "get_system_failuresReason intelligence =
     (case intelligence of
        None \<Rightarrow> None
      | Some i \<Rightarrow> (case system i of None \<Rightarrow> None | Some s \<Rightarrow> failuresReason s))"

definition get_system_producer :: "intelligence option \<Rightarrow> producer_attempt option" where
  "get_system_producer intelligence =
     (case intelligence of
        None \<Rightarrow> None
      | Some i \<Rightarrow> (case system i of None \<Rightarrow> None | Some s \<Rightarrow> producer s))"

text \<open>
  The body of the first \<open>for\<close> loop, for the stored \<open>item\<close>. \<open>now1\<close> and \<open>now2\<close> are the
  two readings of \<open>Date.now()\<close> that either branch makes. Reading \<open>item.system\<close> of a stored
  record without \<open>system\<close>, and reading \<open>contentMap[item.globalId].system.producer\<close> and the
  fields of \<open>passedProducer\<close> when one of the three is missing, throws a \<open>TypeError\<close>.
\<close>

definition classify ::
  "config \<Rightarrow> (string \<rightharpoonup> intelligence) \<Rightarrow> int \<Rightarrow> int \<Rightarrow> intelligence \<Rightarrow> error + classified"
where
  "classify cfg contentMap now1 now2 item =
     (let intelligence = contentMap (globalId item)
      in case system item of
           None \<Rightarrow> Inl TypeError
         | Some sys \<Rightarrow>
             if orZero (failuresNumber sys) < MAX_FAIL_NUMBER_FOR_INTELLIGENCE cfg
                \<and> get_system_state intelligence \<noteq> Some (INTELLIGENCE_STATE_finished cfg)
             then
               (let failuresNumber' =
                      (if falsy (failuresNumber sys) then Num 1 else plusOne (failuresNumber sys))
                in Inr (Retry
                     \<lparr>primary_key = None,
                      globalId = globalId item,
                      system = Some
                        \<lparr>state = (if truthy (get_system_state intelligence)
                                  then get_system_state intelligence
                                  else Some (INTELLIGENCE_STATE_failed cfg)),
                         failuresNumber = failuresNumber',
                         failuresReason = get_system_failuresReason intelligence,
                         producer = Some
                           \<lparr>producer_globalId =
                              (case get_system_producer intelligence of
                                 None \<Rightarrow> None | Some p \<Rightarrow> producer_globalId p),
                            producer_type =
                              (case get_system_producer intelligence of
                                 None \<Rightarrow> None | Some p \<Rightarrow> producer_type p),
                            producer_startedAt =
                              (case get_system_producer intelligence of
                                 None \<Rightarrow> None | Some p \<Rightarrow> producer_startedAt p),
                            producer_endedAt =
                              (case get_system_producer intelligence of
                                 None \<Rightarrow> None | Some p \<Rightarrow> producer_endedAt p)\<rparr>,
                         modified = Some now1,
                         endedAt = Some now2,
                         securityKey = None\<rparr>\<rparr>))
             else
               (let sys1 =
                      (if get_system_state intelligence \<noteq> Some (INTELLIGENCE_STATE_finished cfg)
                       then sys\<lparr>failuresNumber := plusOne (failuresNumber sys),
                                failuresReason := get_system_failuresReason intelligence\<rparr>
                       else sys);
                    sys2 = sys1\<lparr>modified := Some now1, endedAt := Some now2,
                                state := (case get_system_state intelligence of
                                            None \<Rightarrow> Some (INTELLIGENCE_STATE_finished cfg)
                                          | Some s \<Rightarrow> Some s)\<rparr>
                in case intelligence of
                     None \<Rightarrow> Inl TypeError
                   | Some reported \<Rightarrow>
                       (case system reported of
                          None \<Rightarrow> Inl TypeError
                        | Some reportedSystem \<Rightarrow>
                            (case producer reportedSystem of
                               None \<Rightarrow> Inl TypeError
                             | Some passedProducer \<Rightarrow>
                                 Inr (Terminal
                                   (item\<lparr>primary_key := None,
                                          system := Some
                                            (sys2\<lparr>producer := Some
                                               \<lparr>producer_globalId = producer_globalId passedProducer,
                                                producer_type = producer_type passedProducer,
                                                producer_startedAt = producer_startedAt passedProducer,
                                                producer_endedAt = producer_endedAt passedProducer\<rparr>\<rparr>)\<rparr>))))))"

text \<open>
  The first \<open>for\<close> loop over the stored records: it fills \<open>failedIntelligences\<close>,
  \<open>intelligenceHistory\<close> and \<open>gids\<close>, in the order of the records, and stops at the first
  exception. \<open>clock\<close> gives the successive readings of \<open>Date.now()\<close>; the record number
  \<open>i\<close> takes the readings \<open>2 * i\<close> and \<open>2 * i + 1\<close>.
\<close>

fun forLoop ::
  "config \<Rightarrow> (string \<rightharpoonup> intelligence) \<Rightarrow> (nat \<Rightarrow> int) \<Rightarrow> nat \<Rightarrow> intelligence list
     \<Rightarrow> error + (intelligence list \<times> intelligence list \<times> string list)"
where
  "forLoop cfg contentMap clock i [] = Inr ([], [], [])"
| "forLoop cfg contentMap clock i (item # rest) =
     (case classify cfg contentMap (clock (2 * i)) (clock (2 * i + 1)) item of
        Inl err \<Rightarrow> Inl err
      | Inr c \<Rightarrow>
          (case forLoop cfg contentMap clock (Suc i) rest of
             Inl err \<Rightarrow> Inl err
           | Inr (failedIntelligences, intelligenceHistory, gids) \<Rightarrow>
               (case c of
                  Retry u \<Rightarrow> Inr (u # failedIntelligences, intelligenceHistory, gids)
                | Terminal h \<Rightarrow>
                    Inr (failedIntelligences, h # intelligenceHistory, globalId item # gids))))"

text \<open>The body of the second \<open>for\<close> loop: \<open>failuresReason\<close> is set to the empty string when
  the state is finished and the reason is not already falsy.\<close>

definition clearFailuresReason :: "config \<Rightarrow> intelligence \<Rightarrow> intelligence" where
  "clearFailuresReason cfg h =
     (case system h of
        None \<Rightarrow> h
      | Some s \<Rightarrow>
          if state s = Some (INTELLIGENCE_STATE_finished cfg) \<and> truthy (failuresReason s)
          then h\<lparr>system := Some (s\<lparr>failuresReason := Some []\<rparr>)\<rparr>
          else h)"

subsection \<open>The two stores\<close>

record stores =
  intelligences :: "intelligence list"
  intelligences_history :: "intelligence list"

text \<open>
  Modelled from the spec: \<open>getIntelligencesDB\<close>, \<open>updateEachIntelligencesDB\<close>,
  \<open>addIntelligenceHistoryDB\<close> and \<open>deleteIntelligencesDB\<close> are imported from
  \<open>dbController/IntelligenceAndHistory.ctrl\<close>, which is not part of the sources at hand. The
  spec gives the persistence layer find-by-id, update and delete over the Intelligence collection
  and an append-only insert over the HistoryRecord collection, each a single-record operation, and
  calls the security key an ownership token scoping which caller may act on a record. A caller
  without a key is not restricted; a caller with a key reaches the records stamped with it.
\<close>

definition in_scope :: "string option \<Rightarrow> intelligence \<Rightarrow> bool" where
  "in_scope key i =
     (case key of
        None \<Rightarrow> True
      | Some k \<Rightarrow> (case system i of None \<Rightarrow> False | Some s \<Rightarrow> securityKey s = Some k))"

text \<open>Modelled from the spec: \<open>getIntelligencesDB(gids, securityKey)\<close> finds the active records
  with one of the given ids that the key reaches, in the order of the store.\<close>

definition getIntelligencesDB :: "string list \<Rightarrow> string option \<Rightarrow> stores \<Rightarrow> intelligence list" where
  "getIntelligencesDB gids key st =
     filter (\<lambda>i. globalId i \<in> set gids \<and> in_scope key i) (intelligences st)"

text \<open>Modelled from the spec: the update of one record sets the fields that the entry of
  \<open>failedIntelligences\<close> carries, on the record with its \<open>globalId\<close>.\<close>

definition updateOne :: "intelligence \<Rightarrow> intelligence \<Rightarrow> intelligence" where
  "updateOne u i =
     (if globalId i = globalId u
      then (case (system u, system i) of
              (Some us, Some s) \<Rightarrow>
                i\<lparr>system := Some (s\<lparr>state := state us,
                                     failuresNumber := failuresNumber us,
                                     failuresReason := failuresReason us,
                                     producer := producer us,
                                     modified := modified us,
                                     endedAt := endedAt us\<rparr>)\<rparr>
            | (Some us, None) \<Rightarrow> i\<lparr>system := Some us\<rparr>
            | (None, _) \<Rightarrow> i)
      else i)"

text \<open>Modelled from the spec: \<open>updateEachIntelligencesDB\<close> applies the updates one after
  the other.\<close>

definition updateEachIntelligencesDB :: "intelligence list \<Rightarrow> stores \<Rightarrow> stores" where
  "updateEachIntelligencesDB updates st =
     st\<lparr>intelligences := fold (\<lambda>u. map (updateOne u)) updates (intelligences st)\<rparr>"

text \<open>Modelled from the spec: \<open>addIntelligenceHistoryDB\<close> appends to the history store,
  without looking for a record with the same \<open>globalId\<close>.\<close>

definition addIntelligenceHistoryDB :: "intelligence list \<Rightarrow> stores \<Rightarrow> stores" where
  "addIntelligenceHistoryDB records st =
     st\<lparr>intelligences_history := intelligences_history st @ records\<rparr>"

text \<open>Modelled from the spec: \<open>deleteIntelligencesDB(gids, securityKey)\<close> removes the active
  records with one of the given ids that the key reaches, and returns how many it removed.\<close>

definition deleteIntelligencesDB :: "string list \<Rightarrow> string option \<Rightarrow> stores \<Rightarrow> nat \<times> stores" where
  "deleteIntelligencesDB gids key st =
     (length (filter (\<lambda>i. globalId i \<in> set gids \<and> in_scope key i) (intelligences st)),
      st\<lparr>intelligences :=
            filter (\<lambda>i. \<not> (globalId i \<in> set gids \<and> in_scope key i)) (intelligences st)\<rparr>)"

subsection \<open>updateIntelligences\<close>

text \<open>What the function returns: \<open>{}\<close> when no record was found, else the result of the
  delete.\<close>

datatype update_result = EmptyObject | DeleteResult nat

text \<open>\<open>contentMap\<close>: a later report for the same \<open>globalId\<close> replaces an earlier one.\<close>

definition contentMapOf :: "intelligence list \<Rightarrow> (string \<rightharpoonup> intelligence)" where
  "contentMapOf content = fold (\<lambda>item m. m(globalId item \<mapsto> item)) content Map.empty"

definition updateIntelligences ::
  "config \<Rightarrow> (nat \<Rightarrow> int) \<Rightarrow> intelligence list \<Rightarrow> string option \<Rightarrow> stores
     \<Rightarrow> error + (update_result \<times> stores)"
where
  "updateIntelligences cfg clock content key st =
     (let contentMap = contentMapOf content;
          gids = map globalId content;
          found = getIntelligencesDB gids key st
      in if found = [] then Inr (EmptyObject, st)
         else
           (case forLoop cfg contentMap clock 0 found of
              Inl err \<Rightarrow> Inl err
            | Inr (failedIntelligences, intelligenceHistory, gids') \<Rightarrow>
                (let st1 = (if failedIntelligences \<noteq> []
                            then updateEachIntelligencesDB failedIntelligences st else st);
                     intelligenceHistory' = map (clearFailuresReason cfg) intelligenceHistory;
                     st2 = addIntelligenceHistoryDB intelligenceHistory' st1;
                     (result, st3) = deleteIntelligencesDB gids' key st2
                 in Inr (DeleteResult result, st3))))"

section \<open>Reading the outcome of a classification\<close>

text \<open>The record that a classification carries, and its \<open>system.failuresNumber\<close>: the value
  written back on the retry path, the value archived on the terminal path.\<close>

definition record_of :: "classified \<Rightarrow> intelligence" where
  "record_of c = (case c of Retry u \<Rightarrow> u | Terminal h \<Rightarrow> h)"


section \<open>Example values\<close>

text \<open>Concrete configurations, tickets, records and collaborators on which the theorems below
  are instantiated.\<close>

definition example_config :: "int \<Rightarrow> int \<Rightarrow> config" where
  "example_config timeout maxFail =
     \<lparr>TASK_JOB_TIMEOUT = timeout, MAX_FAIL_NUMBER_FOR_INTELLIGENCE = maxFail,
      REQUESTED_WITH_ENGINE_UI = ''engine-ui'', INTELLIGENCE_STATE_finished = ''FINISHED'',
      INTELLIGENCE_STATE_failed = ''FAILED'', PRODUCER_STATE_active = ''ACTIVE''\<rparr>"

definition example_ticket :: "nat \<Rightarrow> string \<Rightarrow> int \<Rightarrow> TasksJobQueue" where
  "example_ticket i g t =
     \<lparr>id_pk = i, global_id = g, agent_global_id = ''producer-1'', created_at = t\<rparr>"

text \<open>Nothing else touches the queue, and the timer is punctual.\<close>

definition example_quiet :: environment where
  "example_quiet = \<lparr>interference = (\<lambda>k r. r), lag = (\<lambda>k. 0)\<rparr>"

text \<open>The store does not answer any poll.\<close>

definition example_store_down :: environment where
  "example_store_down = \<lparr>interference = (\<lambda>k r. r\<lparr>online := False\<rparr>), lag = (\<lambda>k. 0)\<rparr>"

text \<open>The sweep (or anything else) removes the caller's ticket \<open>taskjob-mine\<close> while it
  sleeps; the tickets of other callers stay.\<close>

definition example_evicted :: environment where
  "example_evicted =
     \<lparr>interference = (\<lambda>k r. r\<lparr>rows := filter (\<lambda>t. global_id t \<noteq> ''taskjob-mine'') (rows r)\<rparr>),
      lag = (\<lambda>k. 0)\<rparr>"

text \<open>The sweep empties the queue while the caller sleeps.\<close>

definition example_swept :: environment where
  "example_swept = \<lparr>interference = (\<lambda>k r. r\<lparr>rows := []\<rparr>), lag = (\<lambda>k. 0)\<rparr>"

definition example_collaborators :: "(unit, string) collaborators" where
  "example_collaborators =
     \<lparr>getProducerByGlobalIdDB = (\<lambda>gid key w. Inr (Some
          \<lparr>p_type = Some ''HEADLESSBROWSER'',
           p_system = Some \<lparr>serialId = None, p_securityKey = None, p_state = Some ''active''\<rparr>\<rparr>)),
      updateProducerDB = (\<lambda>gid key u w. Inr w),
      omit = (\<lambda>p. p),
      getIntelligencesForProducerDB = (\<lambda>p key w. Inr ([''intelligence-1''], w))\<rparr>"

definition example_attempt :: producer_attempt where
  "example_attempt =
     \<lparr>producer_globalId = Some ''producer-1'', producer_type = Some ''HEADLESSBROWSER'',
      producer_startedAt = Some 10, producer_endedAt = Some 20\<rparr>"

text \<open>A stored intelligence in state CONFIGURED with the given failure count and reason.\<close>

definition example_stored :: "number \<Rightarrow> string option \<Rightarrow> intelligence" where
  "example_stored n reason =
     \<lparr>primary_key = Some 7, globalId = ''intelligence-1'',
      system = Some \<lparr>state = Some ''CONFIGURED'', failuresNumber = n, failuresReason = reason,
                     producer = None, modified = Some 0, endedAt = None, securityKey = None\<rparr>\<rparr>"

text \<open>What a producer reports for it: a state and, maybe, a reason.\<close>

definition example_report :: "string \<Rightarrow> string option \<Rightarrow> intelligence" where
  "example_report st reason =
     \<lparr>primary_key = None, globalId = ''intelligence-1'',
      system = Some \<lparr>state = Some st, failuresNumber = Undefined, failuresReason = reason,
                     producer = Some example_attempt, modified = None, endedAt = None,
                     securityKey = None\<rparr>\<rparr>"

text \<open>The record of \<open>example_stored\<close> once archived.\<close>

definition example_archived :: "string \<Rightarrow> number \<Rightarrow> string option \<Rightarrow> int \<Rightarrow> int \<Rightarrow> intelligence" where
  "example_archived st n reason now1 now2 =
     \<lparr>primary_key = None, globalId = ''intelligence-1'',
      system = Some \<lparr>state = Some st, failuresNumber = n, failuresReason = reason,
                     producer = Some example_attempt, modified = Some now1,
                     endedAt = Some now2, securityKey = None\<rparr>\<rparr>"

text \<open>The record of \<open>example_stored\<close> after a retry update.\<close>

definition example_updated :: "string \<Rightarrow> number \<Rightarrow> string option \<Rightarrow> int \<Rightarrow> int \<Rightarrow> intelligence" where
  "example_updated st n reason now1 now2 =
     \<lparr>primary_key = Some 7, globalId = ''intelligence-1'',
      system = Some \<lparr>state = Some st, failuresNumber = n, failuresReason = reason,
                     producer = Some example_attempt, modified = Some now1,
                     endedAt = Some now2, securityKey = None\<rparr>\<rparr>"

text \<open>The entry of \<open>failedIntelligences\<close> that a retry of \<open>example_stored\<close> produces.\<close>

definition example_retry :: "string \<Rightarrow> number \<Rightarrow> string option \<Rightarrow> int \<Rightarrow> int \<Rightarrow> intelligence" where
  "example_retry st n reason now1 now2 =
     \<lparr>primary_key = None, globalId = ''intelligence-1'',
      system = Some \<lparr>state = Some st, failuresNumber = n, failuresReason = reason,
                     producer = Some example_attempt, modified = Some now1,
                     endedAt = Some now2, securityKey = None\<rparr>\<rparr>"

section \<open>The head of the queue\<close>

lemma orderBy_asym: "orderBy a b \<Longrightarrow> \<not> orderBy b a"
  by (auto simp: orderBy_def)

lemma orderBy_total: "id_pk a \<noteq> id_pk b \<Longrightarrow> orderBy a b \<or> orderBy b a"
  by (auto simp: orderBy_def)

lemma not_orderBy_trans: "\<not> orderBy u m \<Longrightarrow> \<not> orderBy m a \<Longrightarrow> \<not> orderBy u a"
  by (auto simp: orderBy_def)

lemma getOne_None: "getOne ts = None \<longleftrightarrow> ts = []"
  by (induction ts) (auto split: option.splits)

lemma getOne_mem: "getOne ts = Some t \<Longrightarrow> t \<in> set ts"
  by (induction ts arbitrary: t) (auto split: option.splits if_splits)

lemma getOne_least:
  "getOne ts = Some t \<Longrightarrow> u \<in> set ts \<Longrightarrow> \<not> orderBy u t"
proof (induction ts arbitrary: t u)
  case Nil
  then show ?case by simp
next
  case (Cons a ts)
  show ?case
  proof (cases "getOne ts")
    case None
    then have "ts = []" by (simp add: getOne_None)
    with Cons.prems None show ?thesis by (auto simp: orderBy_def)
  next
    case (Some m)
    have IH: "v \<in> set ts \<Longrightarrow> \<not> orderBy v m" for v
      using Cons.IH [OF Some] .
    show ?thesis
    proof (cases "orderBy m a")
      case True
      with Some Cons.prems(1) have t: "t = m" by simp
      from Cons.prems(2) IH True t show ?thesis
        by (auto dest: orderBy_asym)
    next
      case False
      with Some Cons.prems(1) have t: "t = a" by simp
      from Cons.prems(2) have "u = a \<or> u \<in> set ts" by simp
      then show ?thesis
      proof
        assume "u = a"
        with t show ?thesis by (simp add: orderBy_def)
      next
        assume "u \<in> set ts"
        then have "\<not> orderBy u m" by (rule IH)
        with False t show ?thesis by (simp add: not_orderBy_trans)
      qed
    qed
  qed
qed

lemma same_id_same_row:
  "distinct (map id_pk ts) \<Longrightarrow> t \<in> set ts \<Longrightarrow> u \<in> set ts \<Longrightarrow> id_pk t = id_pk u \<Longrightarrow> t = u"
  by (meson distinct_map inj_onD)

text \<open>
  C2, as the code has it. When the store answers, the table is not empty and the primary keys
  are pairwise different, \<open>getTopTaskJob\<close> returns a ticket of the table that comes before
  every other ticket in the order \<open>created_at\<close> ascending, then primary key ascending, and it
  is the only ticket of the table with that property. The tie-break is the primary key that the
  store assigned at insertion, not \<open>global_id\<close>.
\<close>

theorem getTopTaskJob_head:
  assumes "online repo" and "rows repo \<noteq> []" and "distinct (map id_pk (rows repo))"
  shows "\<exists>t. getTopTaskJob repo = Inr (Some t) \<and> t \<in> set (rows repo)
           \<and> (\<forall>u\<in>set (rows repo). u \<noteq> t \<longrightarrow> orderBy t u)
           \<and> (\<forall>t'\<in>set (rows repo).
                 (\<forall>u\<in>set (rows repo). u \<noteq> t' \<longrightarrow> orderBy t' u) \<longrightarrow> t' = t)"
proof -
  from assms(2) obtain t where t: "getOne (rows repo) = Some t"
    by (cases "getOne (rows repo)") (auto simp: getOne_None)
  have mem: "t \<in> set (rows repo)" using t by (rule getOne_mem)
  have least: "orderBy t u" if "u \<in> set (rows repo)" and "u \<noteq> t" for u
  proof -
    from that assms(3) mem have "id_pk u \<noteq> id_pk t"
      using same_id_same_row by blast
    then have "orderBy u t \<or> orderBy t u" by (rule orderBy_total)
    moreover have "\<not> orderBy u t" using t that(1) by (rule getOne_least)
    ultimately show ?thesis by simp
  qed
  have uniq: "t' = t"
    if "t' \<in> set (rows repo)" and "\<forall>u\<in>set (rows repo). u \<noteq> t' \<longrightarrow> orderBy t' u" for t'
  proof (rule ccontr)
    assume "t' \<noteq> t"
    with that mem have "orderBy t' t" by auto
    moreover from \<open>t' \<noteq> t\<close> that(1) have "orderBy t t'" using least by blast
    ultimately show False by (simp add: orderBy_asym)
  qed
  from assms(1) t have "getTopTaskJob repo = Inr (Some t)"
    by (simp add: getTopTaskJob_def)
  with mem least uniq show ?thesis by blast
qed

text \<open>
  Tickets A (created at 0), B and C (both created at 1), inserted in this order: the heads are
  A, then B once A is released, then C once B is released.
\<close>

theorem getTopTaskJob_head_witness:
  "getTopTaskJob \<lparr>rows = [example_ticket 0 ''taskjob-a'' 0, example_ticket 1 ''taskjob-b'' 1,
                           example_ticket 2 ''taskjob-c'' 1], next_id = 3, online = True\<rparr>
     = Inr (Some (example_ticket 0 ''taskjob-a'' 0))
   \<and> getTopTaskJob \<lparr>rows = [example_ticket 1 ''taskjob-b'' 1, example_ticket 2 ''taskjob-c'' 1],
                     next_id = 3, online = True\<rparr>
     = Inr (Some (example_ticket 1 ''taskjob-b'' 1))
   \<and> getTopTaskJob \<lparr>rows = [example_ticket 2 ''taskjob-c'' 1], next_id = 3, online = True\<rparr>
     = Inr (Some (example_ticket 2 ''taskjob-c'' 1))"
  using getTopTaskJob_head [of "\<lparr>rows = [example_ticket 0 ''taskjob-a'' 0,
            example_ticket 1 ''taskjob-b'' 1, example_ticket 2 ''taskjob-c'' 1],
            next_id = 3, online = True\<rparr>"]
    getTopTaskJob_head [of "\<lparr>rows = [example_ticket 1 ''taskjob-b'' 1,
            example_ticket 2 ''taskjob-c'' 1], next_id = 3, online = True\<rparr>"]
    getTopTaskJob_head [of "\<lparr>rows = [example_ticket 2 ''taskjob-c'' 1], next_id = 3, online = True\<rparr>"]
  by (auto simp: orderBy_def example_ticket_def)

text \<open>
  C2 as stated fails. C is enqueued before B within the same millisecond, and C's
  \<open>global_id\<close> is greater than B's: the head is C, although B comes before C in the order
  of the spec.
\<close>

theorem getTopTaskJob_globalId_tiebreak_counterexample:
  "addATaskJob ''taskjob-c'' ''producer-1'' 1 \<lparr>rows = [], next_id = 0, online = True\<rparr>
     = Inr \<lparr>rows = [example_ticket 0 ''taskjob-c'' 1], next_id = 1, online = True\<rparr>
   \<and> addATaskJob ''taskjob-b'' ''producer-1'' 1
        \<lparr>rows = [example_ticket 0 ''taskjob-c'' 1], next_id = 1, online = True\<rparr>
     = Inr \<lparr>rows = [example_ticket 0 ''taskjob-c'' 1, example_ticket 1 ''taskjob-b'' 1],
            next_id = 2, online = True\<rparr>
   \<and> getTopTaskJob
        \<lparr>rows = [example_ticket 0 ''taskjob-c'' 1, example_ticket 1 ''taskjob-b'' 1],
         next_id = 2, online = True\<rparr>
     = Inr (Some (example_ticket 0 ''taskjob-c'' 1))
   \<and> spec_createdAt_globalId_order (example_ticket 1 ''taskjob-b'' 1)
        (example_ticket 0 ''taskjob-c'' 1)"
  by (simp add: addATaskJob_def getTopTaskJob_def orderBy_def spec_createdAt_globalId_order_def
        example_ticket_def)

section \<open>The sweep\<close>




section \<open>The polling wait\<close>

lemma waitHandler_empty:
  assumes "online (interference env k repo)" and "rows (interference env k repo) = []"
  shows "waitHandler cfg env taskJobGlobalId startTime k clock repo
           = Some (Rejected, Suc k, clock + 100 + int (lag env k), interference env k repo)"
  using assms by (subst waitHandler.simps) (simp add: getTopTaskJob_def Let_def)

lemma getOne_not_mine:
  assumes "getOne ts = Some j" and "g \<notin> global_id ` set ts"
  shows "global_id j \<noteq> g"
  using getOne_mem [OF assms(1)] assms(2) by auto

text \<open>
  C6, as the code has it. The callback looks only at the head of the queue. Take a poll at which
  the store answers and the caller's ticket is no longer in the table. If the table is empty, the
  wait is rejected at this very poll. If other tickets (with non-empty \<open>global_id\<close>) remain
  and the timeout has not yet elapsed, the poll settles nothing and the wait goes on with the
  next poll; it ends only when the timeout has elapsed or the table has become empty. Both
  rejections carry the same value \<open>false\<close>.
\<close>

theorem waitHandler_ticket_missing:
  assumes "online (interference env k repo)"
    and "taskJobGlobalId \<notin> global_id ` set (rows (interference env k repo))"
  shows "(rows (interference env k repo) = [] \<longrightarrow>
            waitHandler cfg env taskJobGlobalId startTime k clock repo
              = Some (Rejected, Suc k, clock + 100 + int (lag env k), interference env k repo))
       \<and> (rows (interference env k repo) \<noteq> []
            \<and> (\<forall>t\<in>set (rows (interference env k repo)). global_id t \<noteq> [])
            \<and> clock + 100 + int (lag env k) - startTime \<le> TASK_JOB_TIMEOUT cfg \<longrightarrow>
            waitHandler cfg env taskJobGlobalId startTime k clock repo
              = waitHandler cfg env taskJobGlobalId startTime (Suc k)
                  (clock + 100 + int (lag env k)) (interference env k repo))"
proof (intro conjI impI)
  assume "rows (interference env k repo) = []"
  with assms(1) show "waitHandler cfg env taskJobGlobalId startTime k clock repo
      = Some (Rejected, Suc k, clock + 100 + int (lag env k), interference env k repo)"
    by (rule waitHandler_empty)
next
  assume a: "rows (interference env k repo) \<noteq> []
            \<and> (\<forall>t\<in>set (rows (interference env k repo)). global_id t \<noteq> [])
            \<and> clock + 100 + int (lag env k) - startTime \<le> TASK_JOB_TIMEOUT cfg"
  then obtain j where j: "getOne (rows (interference env k repo)) = Some j"
    by (cases "getOne (rows (interference env k repo))") (auto simp: getOne_None)
  have "global_id j \<noteq> taskJobGlobalId" using j assms(2) by (rule getOne_not_mine)
  moreover have "global_id j \<noteq> []" using getOne_mem [OF j] a by blast
  ultimately show "waitHandler cfg env taskJobGlobalId startTime k clock repo
              = waitHandler cfg env taskJobGlobalId startTime (Suc k)
                  (clock + 100 + int (lag env k)) (interference env k repo)"
    using assms(1) j a
    by (subst waitHandler.simps) (simp add: getTopTaskJob_def Let_def)
qed

text \<open>
  The sweep empties the queue: rejected at the first poll. The sweep removes only the caller's
  ticket: the first poll settles nothing.
\<close>

theorem waitHandler_ticket_missing_witness:
  "waitHandler (example_config 250 2) example_swept ''taskjob-mine'' 1000 0 1000
     \<lparr>rows = [example_ticket 0 ''taskjob-mine'' 1000], next_id = 1, online = True\<rparr>
   = Some (Rejected, 1, 1100, \<lparr>rows = [], next_id = 1, online = True\<rparr>)
   \<and> waitHandler (example_config 250 2) example_evicted ''taskjob-mine'' 1000 0 1000
     \<lparr>rows = [example_ticket 0 ''taskjob-mine'' 1000, example_ticket 1 ''taskjob-other'' 1001],
      next_id = 2, online = True\<rparr>
   = waitHandler (example_config 250 2) example_evicted ''taskjob-mine'' 1000 1 1100
     \<lparr>rows = [example_ticket 1 ''taskjob-other'' 1001], next_id = 2, online = True\<rparr>"
  using waitHandler_ticket_missing
    [of example_swept 0
        "\<lparr>rows = [example_ticket 0 ''taskjob-mine'' 1000], next_id = 1, online = True\<rparr>"
        "''taskjob-mine''" "example_config 250 2" 1000 1000]
    waitHandler_ticket_missing
    [of example_evicted 0
        "\<lparr>rows = [example_ticket 0 ''taskjob-mine'' 1000, example_ticket 1 ''taskjob-other'' 1001],
          next_id = 2, online = True\<rparr>"
        "''taskjob-mine''" "example_config 250 2" 1000 1000]
  by (simp add: example_swept_def example_evicted_def example_ticket_def example_config_def)

text \<open>
  C6 as stated fails. The caller's ticket is gone from the first poll on, while the ticket of
  another caller stays. With a timeout of 250 ms the wait is not rejected at the first poll but
  at the third, 300 ms after the call, by the timeout.
\<close>

theorem waitUntilTopTask_ticket_missing_counterexample:
  "waitUntilTopTask (example_config 250 2) example_evicted ''taskjob-mine'' 1000
     \<lparr>rows = [example_ticket 0 ''taskjob-mine'' 1000, example_ticket 1 ''taskjob-other'' 1001],
      next_id = 2, online = True\<rparr>
   = Some (Rejected, 3, 1300,
       \<lparr>rows = [example_ticket 1 ''taskjob-other'' 1001], next_id = 2, online = True\<rparr>)"
  unfolding waitUntilTopTask_def Let_def
  apply (subst waitHandler.simps)
  apply (simp add: getTopTaskJob_def example_evicted_def example_ticket_def example_config_def)
  apply (subst waitHandler.simps)
  apply (simp add: getTopTaskJob_def)
  apply (subst waitHandler.simps)
  apply (simp add: getTopTaskJob_def)
  done

subsection \<open>Settling\<close>

lemma waitHandler_store_down_Some:
  assumes "waitHandler cfg env taskJobGlobalId startTime k clock repo = Some y"
  shows "env = example_store_down \<longrightarrow> False"
proof (rule waitHandler.raw_induct
    [where P = "\<lambda>cfg env g s k clock repo y. env = example_store_down \<longrightarrow> False",
     OF _ assms], goal_cases)
  case (1 wh cfg env g s k clock repo y)
  show ?case
  proof
    assume e: "env = example_store_down"
    with 1(2) have "wh cfg env g s (Suc k) (clock + 100) (repo\<lparr>online := False\<rparr>) = Some y"
      by (simp add: getTopTaskJob_def Let_def example_store_down_def)
    with 1(1) e show False by blast
  qed
qed

lemma waitHandler_store_down_None:
  "waitHandler cfg example_store_down taskJobGlobalId startTime k clock repo = None"
  using waitHandler_store_down_Some
  by (cases "waitHandler cfg example_store_down taskJobGlobalId startTime k clock repo") blast+

text \<open>
  C8 fails on the code when the store does not answer. \<open>getTopTaskJob\<close> throws at every
  poll, the callback ends before its timeout test, and the promise of \<open>waitUntilTopTask\<close> is
  neither resolved nor rejected, whatever the timeout: the wait polls forever.
\<close>

theorem waitUntilTopTask_store_down_never_settles:
  "waitUntilTopTask cfg example_store_down taskJobGlobalId now repo = None"
  by (simp add: waitUntilTopTask_def waitHandler_store_down_None)

theorem waitUntilTopTask_store_down_never_settles_witness:
  "waitUntilTopTask (example_config 250 2) example_store_down ''taskjob-mine'' 1000
     \<lparr>rows = [example_ticket 0 ''taskjob-mine'' 1000], next_id = 1, online = True\<rparr> = None"
  using waitUntilTopTask_store_down_never_settles
    [of "example_config 250 2" "''taskjob-mine''" 1000
        "\<lparr>rows = [example_ticket 0 ''taskjob-mine'' 1000], next_id = 1, online = True\<rparr>"]
  by simp

text \<open>
  When the store answers at every poll, the wait settles: the timer advances the clock by at
  least 100 ms per poll, and a poll later than the timeout resolves or rejects. The number of
  polls is at most \<open>timeout div 100 + 1\<close>.
\<close>

lemma waitHandler_settles:
  assumes up: "\<And>j r. online (interference env j r)"
  shows "\<exists>res n c r'. waitHandler cfg env taskJobGlobalId startTime k clock repo = Some (res, n, c, r')
            \<and> n \<le> k + nat (TASK_JOB_TIMEOUT cfg - (clock - startTime)) div 100 + 1"
proof (induction "nat (TASK_JOB_TIMEOUT cfg - (clock - startTime))" arbitrary: k clock repo
    rule: less_induct)
  case less
  define clock' where "clock' = clock + 100 + int (lag env k)"
  define repo' where "repo' = interference env k repo"
  have on: "online repo'" by (simp add: repo'_def up)
  show ?case
  proof (cases "getOne (rows repo')")
    case None
    then have "waitHandler cfg env taskJobGlobalId startTime k clock repo
                 = Some (Rejected, Suc k, clock', repo')"
      using on by (subst waitHandler.simps) (simp add: getTopTaskJob_def Let_def clock'_def repo'_def)
    then show ?thesis by simp
  next
    case (Some j)
    show ?thesis
    proof (cases "global_id j = [] \<or> global_id j = taskJobGlobalId
                    \<or> clock' - startTime > TASK_JOB_TIMEOUT cfg")
      case True
      then have "\<exists>res. waitHandler cfg env taskJobGlobalId startTime k clock repo
                         = Some (res, Suc k, clock', repo')"
        using on Some
        by (subst waitHandler.simps) (auto simp: getTopTaskJob_def Let_def clock'_def repo'_def)
      then show ?thesis by auto
    next
      case False
      then have step: "waitHandler cfg env taskJobGlobalId startTime k clock repo
                        = waitHandler cfg env taskJobGlobalId startTime (Suc k) clock' repo'"
        using on Some
        by (subst waitHandler.simps) (auto simp: getTopTaskJob_def Let_def clock'_def repo'_def)
      from False have le: "clock' - startTime \<le> TASK_JOB_TIMEOUT cfg" by simp
      have ge: "clock + 100 \<le> clock'" by (simp add: clock'_def)
      from le ge have dec: "nat (TASK_JOB_TIMEOUT cfg - (clock' - startTime))
                     < nat (TASK_JOB_TIMEOUT cfg - (clock - startTime))" by simp
      from less [OF dec, of "Suc k" repo'] obtain res n c r' where
        r: "waitHandler cfg env taskJobGlobalId startTime (Suc k) clock' repo' = Some (res, n, c, r')"
        and n: "n \<le> Suc k + nat (TASK_JOB_TIMEOUT cfg - (clock' - startTime)) div 100 + 1"
        by blast
      from le ge have "nat (TASK_JOB_TIMEOUT cfg - (clock' - startTime)) + 100
                        \<le> nat (TASK_JOB_TIMEOUT cfg - (clock - startTime))" by simp
      then have "nat (TASK_JOB_TIMEOUT cfg - (clock' - startTime)) div 100 + 1
                        \<le> nat (TASK_JOB_TIMEOUT cfg - (clock - startTime)) div 100"
        by (metis div_le_mono div_add_self2 zero_neq_numeral)
      with n have "n \<le> k + nat (TASK_JOB_TIMEOUT cfg - (clock - startTime)) div 100 + 1" by simp
      with r step show ?thesis by simp
    qed
  qed
qed

lemma waitUntilTopTask_settles:
  assumes "\<And>j r. online (interference env j r)"
  shows "\<exists>res n c r'. waitUntilTopTask cfg env taskJobGlobalId now repo = Some (res, n, c, r')
            \<and> n \<le> nat (TASK_JOB_TIMEOUT cfg) div 100 + 1"
  using waitHandler_settles [OF assms, of cfg taskJobGlobalId now 0 now repo]
  by (simp add: waitUntilTopTask_def)



section \<open>Requesting work\<close>







lemma toUpper_examples:
  "toUpper (Some ''active'') = ''ACTIVE''" "toUpper (Some ''ACTIVE'') = ''ACTIVE''"
  by code_simp+

lemma example_run_success:
  "getIntelligences (example_config 250 2) example_quiet example_collaborators
     ''taskjob-1'' ''producer-1'' None 1000 (\<lparr>rows = [], next_id = 0, online = True\<rparr>, ())
   = Some (Inr [''intelligence-1''], \<lparr>rows = [], next_id = 1, online = True\<rparr>, ())"
  unfolding getIntelligences_def getIntelligences_try_def waitUntilTopTask_def Let_def
  apply (subst waitHandler.simps)
  apply (simp add: addATaskJob_def getTopTaskJob_def removeTaskJob_def getProducer_def
      example_quiet_def example_collaborators_def example_config_def truthy_def trim_def
      toUpper_examples)
  done



text \<open>
  C10. The strings \<open>"undefined"\<close> and \<open>"null"\<close> as security key give the same result and
  the same final state as no security key at all, for every producer id, every queue, every
  environment and every behaviour of the collaborators: the key is replaced by \<open>undefined\<close>
  before its first use.
\<close>

theorem getIntelligences_string_undefined_null:
  "getIntelligences cfg env col tj pg (Some ''undefined'') now st
     = getIntelligences cfg env col tj pg None now st
   \<and> getIntelligences cfg env col tj pg (Some ''null'') now st
     = getIntelligences cfg env col tj pg None now st"
  by (simp add: getIntelligences_def getIntelligences_try_def)

theorem getIntelligences_string_undefined_null_witness:
  "getIntelligences (example_config 250 2) example_quiet example_collaborators
     ''taskjob-1'' ''producer-1'' (Some ''undefined'') 1000
     (\<lparr>rows = [], next_id = 0, online = True\<rparr>, ())
     = Some (Inr [''intelligence-1''], \<lparr>rows = [], next_id = 1, online = True\<rparr>, ())
   \<and> getIntelligences (example_config 250 2) example_quiet example_collaborators
     ''taskjob-1'' ''producer-1'' (Some ''null'') 1000
     (\<lparr>rows = [], next_id = 0, online = True\<rparr>, ())
     = Some (Inr [''intelligence-1''], \<lparr>rows = [], next_id = 1, online = True\<rparr>, ())"
  using getIntelligences_string_undefined_null
    [of "example_config 250 2" example_quiet example_collaborators
        "''taskjob-1''" "''producer-1''" 1000 "(\<lparr>rows = [], next_id = 0, online = True\<rparr>, ())"]
    example_run_success
  by simp

section \<open>Classifying a reported outcome\<close>

lemmas example_defs = example_config_def example_report_def example_stored_def
  example_attempt_def example_archived_def example_updated_def example_retry_def

lemmas run_defs = updateIntelligences_def contentMapOf_def getIntelligencesDB_def in_scope_def
  classify_def get_system_state_def get_system_failuresReason_def get_system_producer_def
  clearFailuresReason_def updateEachIntelligencesDB_def updateOne_def
  addIntelligenceHistoryDB_def deleteIntelligencesDB_def truthy_def

lemma retry_increment:
  "(if falsy n then Num 1 else plusOne n) = Num (orZero n + 1)"
  by (cases n) auto


lemma classify_globalId:
  "classify cfg cm now1 now2 item = Inr c \<Longrightarrow> globalId (record_of c) = globalId item"
  by (auto simp: classify_def record_of_def Let_def split: option.splits if_splits)



text \<open>
  C4, as the code has it. On the retry path (stored \<open>failuresNumber\<close>, a missing one counting
  as 0, below the maximum and reported state not FINISHED) the loop body does not throw and
  produces an entry of \<open>failedIntelligences\<close> for the same \<open>globalId\<close> whose state is the
  reported state, or FAILED when the report has none; whose \<open>failuresNumber\<close> is the stored
  one plus 1; whose \<open>modified\<close> and \<open>endedAt\<close> are the two clock readings; whose
  \<open>failuresReason\<close> is the reported one; and whose producer fields are those of the report.
  The state is not kept CONFIGURED.
\<close>

theorem classify_retry_record:
  assumes "system item = Some sys"
    and "orZero (failuresNumber sys) < MAX_FAIL_NUMBER_FOR_INTELLIGENCE cfg"
    and "get_system_state (cm (globalId item)) \<noteq> Some (INTELLIGENCE_STATE_finished cfg)"
  shows "\<exists>u us. classify cfg cm now1 now2 item = Inr (Retry u)
           \<and> globalId u = globalId item \<and> system u = Some us
           \<and> state us = (if truthy (get_system_state (cm (globalId item)))
                          then get_system_state (cm (globalId item))
                          else Some (INTELLIGENCE_STATE_failed cfg))
           \<and> failuresNumber us = Num (orZero (failuresNumber sys) + 1)
           \<and> modified us = Some now1 \<and> endedAt us = Some now2
           \<and> failuresReason us = get_system_failuresReason (cm (globalId item))
           \<and> (\<exists>p. producer us = Some p
                \<and> producer_globalId p = (case get_system_producer (cm (globalId item)) of
                                             None \<Rightarrow> None | Some q \<Rightarrow> producer_globalId q)
                \<and> producer_type p = (case get_system_producer (cm (globalId item)) of
                                         None \<Rightarrow> None | Some q \<Rightarrow> producer_type q)
                \<and> producer_startedAt p = (case get_system_producer (cm (globalId item)) of
                                              None \<Rightarrow> None | Some q \<Rightarrow> producer_startedAt q)
                \<and> producer_endedAt p = (case get_system_producer (cm (globalId item)) of
                                            None \<Rightarrow> None | Some q \<Rightarrow> producer_endedAt q))"
  using assms by (simp add: classify_def Let_def retry_increment)

theorem classify_retry_record_witness:
  "\<exists>u us. classify (example_config 1000 2)
     [''intelligence-1'' \<mapsto> example_report ''TIMEOUT'' (Some ''socket hang up'')] 500 501
     (example_stored (Num 1) None) = Inr (Retry u)
     \<and> system u = Some us \<and> state us = Some ''TIMEOUT'' \<and> failuresNumber us = Num 2
     \<and> modified us = Some 500 \<and> endedAt us = Some 501
     \<and> failuresReason us = Some ''socket hang up'' \<and> producer us = Some example_attempt"
  using classify_retry_record
    [of "example_stored (Num 1) None"
        "\<lparr>state = Some ''CONFIGURED'', failuresNumber = Num 1, failuresReason = None,
          producer = None, modified = Some 0, endedAt = None, securityKey = None\<rparr>"
        "example_config 1000 2"
        "[''intelligence-1'' \<mapsto> example_report ''TIMEOUT'' (Some ''socket hang up'')]" 500 501]
  by (simp add: run_defs example_defs)

text \<open>
  C4 as stated fails. A stored record in state CONFIGURED without failures, a maximum of 2 and
  a FAILED report: the retry entry carries the state FAILED.
\<close>

theorem classify_retry_state_counterexample:
  "state (the (system (example_stored Undefined None))) = Some ''CONFIGURED''
   \<and> classify (example_config 1000 2)
     [''intelligence-1'' \<mapsto> example_report ''FAILED'' (Some ''socket hang up'')] 500 501
     (example_stored Undefined None)
   = Inr (Retry (example_retry ''FAILED'' (Num 1) (Some ''socket hang up'') 500 501))"
  by (simp add: run_defs example_defs)

section \<open>The stores after a report\<close>

lemma classify_kind:
  assumes "classify cfg cm a b item = Inr (Terminal h)" and "classify cfg cm a' b' item = Inr c"
  shows "\<exists>h'. c = Terminal h'"
  using assms by (auto simp: classify_def Let_def split: option.splits if_splits)

lemma forLoop_terminal:
  assumes "forLoop cfg cm clock i items = Inr (failed, hist, gs)"
    and "item \<in> set items"
    and "classify cfg cm a b item = Inr (Terminal h)"
  shows "globalId item \<in> set gs \<and> globalId item \<in> globalId ` set hist"
  using assms
proof (induction items arbitrary: i failed hist gs)
  case Nil
  then show ?case by simp
next
  case (Cons x xs)
  from Cons.prems(1) obtain c f' h' g' where
    cx: "classify cfg cm (clock (2 * i)) (clock (2 * i + 1)) x = Inr c"
    and rest: "forLoop cfg cm clock (Suc i) xs = Inr (f', h', g')"
    by (auto split: sum.splits)
  show ?case
  proof (cases "item = x")
    case True
    with cx Cons.prems(3) obtain hx where c: "c = Terminal hx"
      using classify_kind by blast
    with cx have "globalId hx = globalId x"
      using classify_globalId [of cfg cm _ _ x c] by (simp add: record_of_def)
    with Cons.prems(1) cx rest c True show ?thesis by auto
  next
    case False
    with Cons.prems(2) have "item \<in> set xs" by simp
    from Cons.IH [OF rest this Cons.prems(3)]
    have "globalId item \<in> set g' \<and> globalId item \<in> globalId ` set h'" .
    with Cons.prems(1) cx rest show ?thesis
      by (cases c) auto
  qed
qed

lemma forLoop_history:
  assumes "forLoop cfg cm clock i items = Inr (failed, hist, gs)" and "h \<in> set hist"
  shows "\<exists>item a b. item \<in> set items \<and> classify cfg cm a b item = Inr (Terminal h)"
  using assms
proof (induction items arbitrary: i failed hist gs)
  case Nil
  then show ?case by simp
next
  case (Cons x xs)
  from Cons.prems(1) obtain c f' h' g' where
    cx: "classify cfg cm (clock (2 * i)) (clock (2 * i + 1)) x = Inr c"
    and rest: "forLoop cfg cm clock (Suc i) xs = Inr (f', h', g')"
    by (auto split: sum.splits)
  show ?case
  proof (cases c)
    case (Retry u)
    with Cons.prems cx rest have "h \<in> set h'" by auto
    from Cons.IH [OF rest this] show ?thesis by auto
  next
    case (Terminal t)
    with Cons.prems cx rest have "h = t \<or> h \<in> set h'" by auto
    then show ?thesis
    proof
      assume "h = t"
      with cx Terminal show ?thesis by auto
    next
      assume "h \<in> set h'"
      from Cons.IH [OF rest this] show ?thesis by auto
    qed
  qed
qed

lemma updateOne_globalId: "globalId (updateOne u i) = globalId i"
  by (auto simp: updateOne_def split: option.splits)

lemma updateOne_in_scope: "in_scope key i \<Longrightarrow> in_scope key (updateOne u i)"
  by (auto simp: updateOne_def in_scope_def split: option.splits)

lemma fold_updateOne_map:
  "fold (\<lambda>u. map (updateOne u)) us xs = map (\<lambda>i. fold updateOne us i) xs"
  by (induction us arbitrary: xs) (simp_all add: comp_def)

lemma fold_updateOne_globalId: "globalId (fold updateOne us i) = globalId i"
  by (induction us arbitrary: i) (simp_all add: updateOne_globalId)

lemma fold_updateOne_in_scope: "in_scope key i \<Longrightarrow> in_scope key (fold updateOne us i)"
  by (induction us arbitrary: i) (simp_all add: updateOne_in_scope)

lemma same_globalId_same_record:
  "distinct (map globalId xs) \<Longrightarrow> a \<in> set xs \<Longrightarrow> b \<in> set xs \<Longrightarrow> globalId a = globalId b \<Longrightarrow> a = b"
  by (meson distinct_map inj_onD)

lemma clearFailuresReason_globalId: "globalId (clearFailuresReason cfg h) = globalId h"
  by (auto simp: clearFailuresReason_def split: option.splits)

lemma updateIntelligences_Inr:
  assumes "updateIntelligences cfg clock content key st = Inr (res, st')"
    and "getIntelligencesDB (map globalId content) key st \<noteq> []"
  shows "\<exists>failed hist gs.
           forLoop cfg (contentMapOf content) clock 0
             (getIntelligencesDB (map globalId content) key st) = Inr (failed, hist, gs)
         \<and> intelligences_history st' = intelligences_history st @ map (clearFailuresReason cfg) hist
         \<and> intelligences st' =
             filter (\<lambda>i. \<not> (globalId i \<in> set gs \<and> in_scope key i))
               (map (\<lambda>i. fold updateOne failed i) (intelligences st))"
  using assms
  by (auto simp: updateIntelligences_def Let_def updateEachIntelligencesDB_def
        addIntelligenceHistoryDB_def deleteIntelligencesDB_def fold_updateOne_map
      split: sum.splits prod.splits if_splits)

text \<open>
  The scenario of C1 on the stores: three FAILED reports with a maximum of 2. The first two
  update the record in place (\<open>failuresNumber\<close> 1, then 2); the third moves it to the history
  with \<open>failuresNumber = 3\<close> and the reported reason.
\<close>

lemma updateIntelligences_three_failures:
  "updateIntelligences (example_config 1000 2) (\<lambda>k. 500)
     [example_report ''FAILED'' (Some ''socket hang up'')] None
     \<lparr>intelligences = [example_stored Undefined None], intelligences_history = []\<rparr>
   = Inr (DeleteResult 0,
       \<lparr>intelligences = [example_updated ''FAILED'' (Num 1) (Some ''socket hang up'') 500 500],
        intelligences_history = []\<rparr>)
   \<and> updateIntelligences (example_config 1000 2) (\<lambda>k. 600)
     [example_report ''FAILED'' (Some ''socket hang up'')] None
     \<lparr>intelligences = [example_updated ''FAILED'' (Num 1) (Some ''socket hang up'') 500 500],
      intelligences_history = []\<rparr>
   = Inr (DeleteResult 0,
       \<lparr>intelligences = [example_updated ''FAILED'' (Num 2) (Some ''socket hang up'') 600 600],
        intelligences_history = []\<rparr>)
   \<and> updateIntelligences (example_config 1000 2) (\<lambda>k. 700)
     [example_report ''FAILED'' (Some ''socket hang up'')] None
     \<lparr>intelligences = [example_updated ''FAILED'' (Num 2) (Some ''socket hang up'') 600 600],
      intelligences_history = []\<rparr>
   = Inr (DeleteResult 1,
       \<lparr>intelligences = [],
        intelligences_history =
          [example_archived ''FAILED'' (Num 3) (Some ''socket hang up'') 700 700]\<rparr>)"
  by (simp add: run_defs example_defs)

text \<open>
  C3. Let \<open>updateIntelligences\<close> return, on an active store whose records have pairwise
  different \<open>globalId\<close>s, and let a record found for the report be classified terminal. After
  the call its \<open>globalId\<close> is in the history store and not in the active store.
\<close>

theorem updateIntelligences_archival_exclusive:
  assumes run: "updateIntelligences cfg clock content key st = Inr (res, st')"
    and dist: "distinct (map globalId (intelligences st))"
    and found: "item \<in> set (getIntelligencesDB (map globalId content) key st)"
    and terminal: "classify cfg (contentMapOf content) now1 now2 item = Inr (Terminal h)"
  shows "globalId item \<in> globalId ` set (intelligences_history st')
       \<and> globalId item \<notin> globalId ` set (intelligences st')"
proof -
  from found have ne: "getIntelligencesDB (map globalId content) key st \<noteq> []" by auto
  from updateIntelligences_Inr [OF run ne] obtain failed hist gs where
    loop: "forLoop cfg (contentMapOf content) clock 0
             (getIntelligencesDB (map globalId content) key st) = Inr (failed, hist, gs)"
    and hist: "intelligences_history st' = intelligences_history st @ map (clearFailuresReason cfg) hist"
    and act: "intelligences st' =
             filter (\<lambda>i. \<not> (globalId i \<in> set gs \<and> in_scope key i))
               (map (\<lambda>i. fold updateOne failed i) (intelligences st))"
    by blast
  from forLoop_terminal [OF loop found terminal]
  have gs: "globalId item \<in> set gs" and hs: "globalId item \<in> globalId ` set hist" by simp_all
  from hs have "globalId item \<in> globalId ` set (map (clearFailuresReason cfg) hist)"
    by (auto simp: clearFailuresReason_globalId image_iff)
  with hist have present: "globalId item \<in> globalId ` set (intelligences_history st')" by auto
  from found have mem: "item \<in> set (intelligences st)" and scope: "in_scope key item"
    by (auto simp: getIntelligencesDB_def)
  have absent: "globalId item \<notin> globalId ` set (intelligences st')"
  proof
    assume "globalId item \<in> globalId ` set (intelligences st')"
    then obtain i0 where i0: "i0 \<in> set (intelligences st)"
      and g: "globalId (fold updateOne failed i0) = globalId item"
      and keep: "\<not> (globalId (fold updateOne failed i0) \<in> set gs
                     \<and> in_scope key (fold updateOne failed i0))"
      unfolding act by auto
    from g have "globalId i0 = globalId item" by (simp add: fold_updateOne_globalId)
    with dist i0 mem have "i0 = item" by (rule same_globalId_same_record)
    with scope have "in_scope key (fold updateOne failed i0)" by (simp add: fold_updateOne_in_scope)
    with keep g gs show False by simp
  qed
  from present absent show ?thesis ..
qed

text \<open>A FINISHED report for a record without failures: archived, and gone from the active
  store.\<close>

theorem updateIntelligences_archival_exclusive_witness:
  "updateIntelligences (example_config 1000 2) (\<lambda>k. 500)
     [example_report ''FINISHED'' None] None
     \<lparr>intelligences = [example_stored (Num 0) None], intelligences_history = []\<rparr>
   = Inr (DeleteResult 1,
       \<lparr>intelligences = [],
        intelligences_history = [example_archived ''FINISHED'' (Num 0) None 500 500]\<rparr>)
   \<and> globalId (example_stored (Num 0) None)
        \<in> globalId ` set [example_archived ''FINISHED'' (Num 0) None 500 500]
   \<and> globalId (example_stored (Num 0) None) \<notin> globalId ` set ([] :: intelligence list)"
proof -
  let ?st = "\<lparr>intelligences = [example_stored (Num 0) None], intelligences_history = []\<rparr>"
  let ?st' = "\<lparr>intelligences = [],
        intelligences_history = [example_archived ''FINISHED'' (Num 0) None 500 500]\<rparr>"
  have run: "updateIntelligences (example_config 1000 2) (\<lambda>k. 500)
     [example_report ''FINISHED'' None] None ?st = Inr (DeleteResult 1, ?st')"
    by (simp add: run_defs example_defs)
  have dist: "distinct (map globalId (intelligences ?st))" by simp
  have found: "example_stored (Num 0) None
      \<in> set (getIntelligencesDB (map globalId [example_report ''FINISHED'' None]) None ?st)"
    by (simp add: getIntelligencesDB_def in_scope_def example_defs)
  have terminal: "classify (example_config 1000 2) (contentMapOf [example_report ''FINISHED'' None])
       500 500 (example_stored (Num 0) None)
     = Inr (Terminal (example_archived ''FINISHED'' (Num 0) None 500 500))"
    by (simp add: run_defs example_defs)
  from updateIntelligences_archival_exclusive [OF run dist found terminal] run
  show ?thesis by simp
qed

lemma classify_terminal_record:
  assumes "classify cfg cm a b item = Inr (Terminal h)"
  shows "\<exists>hs. system h = Some hs \<and> globalId h = globalId item
           \<and> state hs = (case get_system_state (cm (globalId item)) of
                            None \<Rightarrow> Some (INTELLIGENCE_STATE_finished cfg) | Some s \<Rightarrow> Some s)
           \<and> (get_system_state (cm (globalId item)) \<noteq> Some (INTELLIGENCE_STATE_finished cfg) \<longrightarrow>
                 failuresReason hs = get_system_failuresReason (cm (globalId item)))"
  using assms by (auto simp: classify_def Let_def split: option.splits if_splits)

lemma clearFailuresReason_effect:
  assumes "system h = Some hs"
  shows "\<exists>hs'. system (clearFailuresReason cfg h) = Some hs' \<and> state hs' = state hs
           \<and> (state hs = Some (INTELLIGENCE_STATE_finished cfg) \<longrightarrow> \<not> truthy (failuresReason hs'))
           \<and> (state hs \<noteq> Some (INTELLIGENCE_STATE_finished cfg) \<longrightarrow> failuresReason hs' = failuresReason hs)"
  using assms by (auto simp: clearFailuresReason_def truthy_def)

text \<open>
  C5, as the code has it. When \<open>updateIntelligences\<close> returns, the history store is the old
  one followed by the records written by the call, and each of these has a \<open>system\<close> part
  with: if its state is FINISHED, its \<open>failuresReason\<close> is empty (missing or the empty
  string); if its state is not FINISHED, its \<open>failuresReason\<close> is the one of the report for
  its \<open>globalId\<close>, which replaces the stored reason and is empty when the report gives none.
\<close>

theorem updateIntelligences_history_failuresReason:
  assumes run: "updateIntelligences cfg clock content key st = Inr (res, st')"
  shows "\<exists>written. intelligences_history st' = intelligences_history st @ written
           \<and> (\<forall>h\<in>set written. \<exists>hs. system h = Some hs
                 \<and> (state hs = Some (INTELLIGENCE_STATE_finished cfg) \<longrightarrow> \<not> truthy (failuresReason hs))
                 \<and> (state hs \<noteq> Some (INTELLIGENCE_STATE_finished cfg) \<longrightarrow>
                       failuresReason hs
                         = get_system_failuresReason (contentMapOf content (globalId h))))"
proof (cases "getIntelligencesDB (map globalId content) key st = []")
  case True
  with run have "st' = st" by (simp add: updateIntelligences_def Let_def)
  then have "intelligences_history st' = intelligences_history st @ []" by simp
  then show ?thesis by (metis empty_iff empty_set)
next
  case False
  from updateIntelligences_Inr [OF run False] obtain failed hist gs where
    loop: "forLoop cfg (contentMapOf content) clock 0
             (getIntelligencesDB (map globalId content) key st) = Inr (failed, hist, gs)"
    and hist: "intelligences_history st' = intelligences_history st @ map (clearFailuresReason cfg) hist"
    by blast
  have "\<exists>hs. system h' = Some hs
           \<and> (state hs = Some (INTELLIGENCE_STATE_finished cfg) \<longrightarrow> \<not> truthy (failuresReason hs))
           \<and> (state hs \<noteq> Some (INTELLIGENCE_STATE_finished cfg) \<longrightarrow>
                 failuresReason hs = get_system_failuresReason (contentMapOf content (globalId h')))"
    if "h' \<in> set (map (clearFailuresReason cfg) hist)" for h'
  proof -
    from that obtain h where h: "h \<in> set hist" and h': "h' = clearFailuresReason cfg h" by auto
    from forLoop_history [OF loop h] obtain item a b where
      "classify cfg (contentMapOf content) a b item = Inr (Terminal h)" by blast
    from classify_terminal_record [OF this] obtain hs where
      hs: "system h = Some hs" and g: "globalId h = globalId item"
      and s: "state hs = (case get_system_state (contentMapOf content (globalId item)) of
                            None \<Rightarrow> Some (INTELLIGENCE_STATE_finished cfg) | Some s \<Rightarrow> Some s)"
      and r: "get_system_state (contentMapOf content (globalId item))
                  \<noteq> Some (INTELLIGENCE_STATE_finished cfg) \<longrightarrow>
                 failuresReason hs = get_system_failuresReason (contentMapOf content (globalId item))"
      by blast
    from clearFailuresReason_effect [OF hs, of cfg] obtain hs' where
      hs': "system h' = Some hs'" and st: "state hs' = state hs"
      and c1: "state hs = Some (INTELLIGENCE_STATE_finished cfg) \<longrightarrow> \<not> truthy (failuresReason hs')"
      and c2: "state hs \<noteq> Some (INTELLIGENCE_STATE_finished cfg) \<longrightarrow> failuresReason hs' = failuresReason hs"
      unfolding h' by blast
    have g': "globalId h' = globalId item" using g h' by (simp add: clearFailuresReason_globalId)
    have "state hs' \<noteq> Some (INTELLIGENCE_STATE_finished cfg) \<longrightarrow>
            failuresReason hs' = get_system_failuresReason (contentMapOf content (globalId h'))"
      using st s r c2 g' by (auto split: option.splits)
    with hs' st c1 show ?thesis by auto
  qed
  with hist show ?thesis by blast
qed

text \<open>A FINISHED report for a record that failed once: the stored reason is replaced by the
  empty string in the archived record.\<close>

theorem updateIntelligences_history_failuresReason_witness:
  "updateIntelligences (example_config 1000 2) (\<lambda>k. 500)
     [example_report ''FINISHED'' None] None
     \<lparr>intelligences = [example_stored (Num 1) (Some ''socket hang up'')],
      intelligences_history = []\<rparr>
   = Inr (DeleteResult 1,
       \<lparr>intelligences = [],
        intelligences_history = [example_archived ''FINISHED'' (Num 1) (Some []) 500 500]\<rparr>)
   \<and> \<not> truthy (Some [])"
proof -
  have run: "updateIntelligences (example_config 1000 2) (\<lambda>k. 500)
     [example_report ''FINISHED'' None] None
     \<lparr>intelligences = [example_stored (Num 1) (Some ''socket hang up'')],
      intelligences_history = []\<rparr>
   = Inr (DeleteResult 1,
       \<lparr>intelligences = [],
        intelligences_history = [example_archived ''FINISHED'' (Num 1) (Some []) 500 500]\<rparr>)"
    by (simp add: run_defs example_defs)
  from updateIntelligences_history_failuresReason [OF run]
  have "\<not> truthy (Some [])"
    by (simp add: example_config_def example_archived_def)
  with run show ?thesis by simp
qed

text \<open>
  C5 as stated fails. The stored record has failed twice, with the reason "socket hang up"; the
  third report is FAILED and gives no reason. The record is archived in state FAILED with an
  empty \<open>failuresReason\<close>: the stored reason is not retained.
\<close>

theorem updateIntelligences_failed_reason_counterexample:
  "updateIntelligences (example_config 1000 2) (\<lambda>k. 500)
     [example_report ''FAILED'' None] None
     \<lparr>intelligences = [example_stored (Num 2) (Some ''socket hang up'')],
      intelligences_history = []\<rparr>
   = Inr (DeleteResult 1,
       \<lparr>intelligences = [],
        intelligences_history = [example_archived ''FAILED'' (Num 3) None 500 500]\<rparr>)"
  by (simp add: run_defs example_defs)

end
